theory Spec2Isabelle
  imports Main
begin

section \<open>Errors\<close>

text \<open>
  The exceptions the code throws and catches. \<open>VimError\<close> is the extension's own error
  class (declared in \<^verbatim>\<open>error.ts\<close>): it carries a stable code and the text that its
  \<^verbatim>\<open>toString()\<close> yields. \<open>Error\<close> is the plain JavaScript error thrown with a message,
  \<open>TypeError\<close> the one the runtime throws when a property of \<^verbatim>\<open>undefined\<close> is read.
  Neither of the last two is an instance of \<open>VimError\<close>.
\<close>

datatype ErrorCode = E492 | OtherCode nat

datatype error =
    VimError ErrorCode string
  | Error string
  | TypeError string

fun toString :: "error \<Rightarrow> string" where
  "toString (VimError c txt) = txt"
| "toString (Error msg) = ''Error: '' @ msg"
| "toString (TypeError msg) = ''TypeError: '' @ msg"

text \<open>The error that is a \<open>VimError\<close> with the code of unsupported syntax.\<close>

fun is_E492 :: "error \<Rightarrow> bool" where
  "is_E492 (VimError c txt) = (c = E492)"
| "is_E492 e = False"

section \<open>Tokens and positions\<close>

text \<open>
  The token kinds that \<^verbatim>\<open>node.ts\<close> refers to (the enumeration itself is declared in
  \<^verbatim>\<open>token.ts\<close>); a token is a kind with its raw content.
\<close>

datatype TokenType =
    LineNumber | Dot | Dollar | Percent | Comma | Offset | Mark
  | SelectionFirstLine | SelectionLastLine

record Token =
  type :: TokenType
  content :: string

record Position =
  line :: int
  character :: int

text \<open>Document order on positions, as the editor's \<^verbatim>\<open>isBeforeOrEqual\<close> and \<^verbatim>\<open>isAfter\<close>.\<close>

definition isBeforeOrEqual :: "Position \<Rightarrow> Position \<Rightarrow> bool" where
  "isBeforeOrEqual p q =
     (line p < line q \<or> (line p = line q \<and> character p \<le> character q))"

definition isAfter :: "Position \<Rightarrow> Position \<Rightarrow> bool" where
  "isAfter p q = (\<not> isBeforeOrEqual p q)"

text \<open>
  Modelled from the spec: \<^verbatim>\<open>Position.setLocation\<close>, \<^verbatim>\<open>Position.EarlierOf\<close> and
  \<^verbatim>\<open>Position.LaterOf\<close> live in \<^verbatim>\<open>common/motion/position.ts\<close>, which is not among the
  sources. \<open>setLocation\<close> gives the position at the given line and column (the cursor is
  moved there); \<open>EarlierOf\<close> and \<open>LaterOf\<close> give the earlier and the later of two positions
  in document order.
\<close>

definition setLocation :: "Position \<Rightarrow> int \<Rightarrow> int \<Rightarrow> Position" where
  "setLocation p l c = \<lparr>line = l, character = c\<rparr>"

definition EarlierOf :: "Position \<Rightarrow> Position \<Rightarrow> Position" where
  "EarlierOf p1 p2 =
     (if line p1 < line p2 then p1
      else if line p1 = line p2 \<and> character p1 < character p2 then p1
      else p2)"

definition LaterOf :: "Position \<Rightarrow> Position \<Rightarrow> Position" where
  "LaterOf p1 p2 = (if EarlierOf p1 p2 = p1 then p2 else p1)"

record Selection =
  start :: Position
  end' :: Position
  active :: Position

record TextDocument =
  lines :: "string list"

definition lineCount :: "TextDocument \<Rightarrow> int" where
  "lineCount d = int (length (lines d))"

text \<open>
  The host editor always has a primary selection, which is the first of its selections:
  \<open>selections\<close> is never empty.
\<close>

record TextEditor =
  document :: TextDocument
  selection :: Selection
  otherSelections :: "Selection list"

definition selections :: "TextEditor \<Rightarrow> Selection list" where
  "selections ed = selection ed # otherSelections ed"

section \<open>Line ranges (node.ts)\<close>

record LineRange =
  left :: "Token list"
  separator :: "Token option"
  right :: "Token list"

definition LineRange_new :: LineRange where
  "LineRange_new = \<lparr>left = [], separator = None, right = []\<rparr>"

definition addToken :: "LineRange \<Rightarrow> Token \<Rightarrow> error + LineRange" where
  "addToken r tok =
     (if type tok = Comma then Inr (r\<lparr>separator := Some tok\<rparr>)
      else if separator r = None then
        (if length (left r) > 0 \<and> type tok \<noteq> Offset
         then Inl (Error ''not a Vim command'')
         else Inr (r\<lparr>left := left r @ [tok]\<rparr>))
      else
        (if length (right r) > 0 \<and> type tok \<noteq> Offset
         then Inl (Error ''not a Vim command'')
         else Inr (r\<lparr>right := right r @ [tok]\<rparr>)))"

text \<open>
  Tokens added one after another to a range, as the parser does while it reads the
  address part of a command; the first throw ends the sequence.
\<close>

fun addTokens :: "LineRange \<Rightarrow> Token list \<Rightarrow> error + LineRange" where
  "addTokens r [] = Inr r"
| "addTokens r (tok # toks) =
     (case addToken r tok of Inl e \<Rightarrow> Inl e | Inr r' \<Rightarrow> addTokens r' toks)"

definition LineRange_isEmpty :: "LineRange \<Rightarrow> bool" where
  "LineRange_isEmpty r =
     (length (left r) = 0 \<and> length (right r) = 0 \<and> separator r = None)"

section \<open>Number parsing\<close>

text \<open>
  \<^verbatim>\<open>Number.parseInt(s, 10)\<close>: leading white space is skipped, one sign is read, then
  the longest run of decimal digits. With no digit the result is NaN, here \<open>None\<close>.
\<close>

definition isWhiteSpace :: "char \<Rightarrow> bool" where
  "isWhiteSpace c = (c \<in> set [CHR '' '', CHR 0x09, CHR 0x0A, CHR 0x0B, CHR 0x0C, CHR 0x0D])"

definition isDigit :: "char \<Rightarrow> bool" where
  "isDigit c = (c \<in> set ''0123456789'')"

definition digitValue :: "char \<Rightarrow> int" where
  "digitValue c = int (of_char c) - 48"

fun digitsValue :: "int \<Rightarrow> string \<Rightarrow> int" where
  "digitsValue acc [] = acc"
| "digitsValue acc (c # cs) = digitsValue (acc * 10 + digitValue c) cs"

definition parseInt10 :: "string \<Rightarrow> int option" where
  "parseInt10 s =
     (let t = dropWhile isWhiteSpace s;
          neg = (t \<noteq> [] \<and> hd t = CHR ''-'');
          u = (if t \<noteq> [] \<and> (hd t = CHR ''-'' \<or> hd t = CHR ''+'') then tl t else t);
          ds = takeWhile isDigit u
      in if ds = [] then None
         else Some (if neg then - digitsValue 0 ds else digitsValue 0 ds))"

section \<open>Command-line history (commandLineHistory.ts)\<close>

text \<open>
  The part of the configuration that the modelled code reads: whether the backend
  bridge is enabled, the history cap, and the two settings pushed to the backend.
\<close>

record configuration =
  enableNeovim :: bool
  history :: int
  expandtab :: bool
  substituteGlobalFlag :: bool

text \<open>
  \<^verbatim>\<open>Array.prototype.slice(start)\<close> with \<open>start\<close> not negative, \<^verbatim>\<open>indexOf\<close> followed by
  \<^verbatim>\<open>splice(index, 1)\<close> (the first equal element goes), and \<^verbatim>\<open>push\<close>.
\<close>

definition slice_from :: "int \<Rightarrow> 'a list \<Rightarrow> 'a list" where
  "slice_from k xs = drop (nat k) xs"

record CommandLineHistory =
  historyDir :: string
  history' :: "string list"

definition resize :: "configuration \<Rightarrow> string list \<Rightarrow> string list" where
  "resize cfg h =
     (if int (length h) > history cfg
      then slice_from (int (length h) - history cfg) h
      else h)"

text \<open>
  \<open>add\<close>: the call of \<^verbatim>\<open>save()\<close> that ends it starts a write of the history file whose
  outcome \<open>add\<close> neither awaits nor reads; it leaves the list held by the store as it is.
\<close>

definition add :: "configuration \<Rightarrow> string option \<Rightarrow> CommandLineHistory \<Rightarrow> CommandLineHistory" where
  "add cfg command s =
     (case command of
        None \<Rightarrow> s
      | Some c \<Rightarrow>
          if length c = 0 then s
          else s\<lparr>history' := resize cfg (remove1 c (history' s) @ [c])\<rparr>)"

text \<open>\<open>get\<close> stores the resized list and returns it: the pair is (store, result).\<close>

definition get :: "configuration \<Rightarrow> CommandLineHistory \<Rightarrow> CommandLineHistory \<times> string list" where
  "get cfg s = (s\<lparr>history' := resize cfg (history' s)\<rparr>, resize cfg (history' s))"

text \<open>A sequence of \<open>add\<close> calls on a store, first call first.\<close>

definition add_all :: "configuration \<Rightarrow> string option list \<Rightarrow> CommandLineHistory \<Rightarrow> CommandLineHistory" where
  "add_all cfg cmds s = foldl (\<lambda>s' c. add cfg c s') s cmds"

text \<open>
  What the specification says a history holds after a sequence of entries: the entries
  that are not empty, each kept at its last occurrence only, and of these the newest
  \<open>cap\<close>.
\<close>

definition nonempty_entries :: "string option list \<Rightarrow> string list" where
  "nonempty_entries cmds =
     concat (map (\<lambda>c. case c of None \<Rightarrow> [] | Some s \<Rightarrow> if s = [] then [] else [s]) cmds)"

definition newest :: "int \<Rightarrow> 'a list \<Rightarrow> 'a list" where
  "newest cap xs = drop (length xs - nat cap) xs"

definition spec_history :: "int \<Rightarrow> string option list \<Rightarrow> string list" where
  "spec_history cap cmds = newest cap (remdups (nonempty_entries cmds))"

subsection \<open>Loading the history file\<close>

text \<open>
  The file system as the store sees it: the content of each path that holds a file, and
  the paths on which reading, and those on which unlinking, is refused. \<open>ENOENT\<close> is the error code of a
  missing file.
\<close>

datatype fs_error = ENOENT | EACCES

record filesystem =
  files :: "string \<Rightarrow> string option"
  read_denied :: "string \<Rightarrow> bool"
  unlink_denied :: "string \<Rightarrow> bool"

definition readFileSync :: "filesystem \<Rightarrow> string \<Rightarrow> fs_error + string" where
  "readFileSync fs p =
     (case files fs p of
        None \<Rightarrow> Inl ENOENT
      | Some d \<Rightarrow> if read_denied fs p then Inl EACCES else Inr d)"

definition unlinkSync :: "filesystem \<Rightarrow> string \<Rightarrow> fs_error + filesystem" where
  "unlinkSync fs p =
     (case files fs p of
        None \<Rightarrow> Inl ENOENT
      | Some d \<Rightarrow>
          if unlink_denied fs p then Inl EACCES
          else Inr (fs\<lparr>files := (files fs)(p := None)\<rparr>))"

text \<open>
  What \<^verbatim>\<open>JSON.parse\<close> followed by \<^verbatim>\<open>Array.isArray\<close> tells about a text: a syntax error
  (\<open>None\<close>), a value that is not an array, or an array with its elements. The parser is
  the platform's; the functions below take it as the parameter \<open>JSON_parse\<close>.
\<close>

datatype parsed = IsArray "string list" | NotArray

definition historyFilePath :: "CommandLineHistory \<Rightarrow> string" where
  "historyFilePath s = historyDir s @ ''/'' @ ''.cmdline_history''"

definition clear :: "filesystem \<Rightarrow> CommandLineHistory \<Rightarrow> filesystem" where
  "clear fs s =
     (case unlinkSync fs (historyFilePath s) of
        Inl err \<Rightarrow> fs
      | Inr fs' \<Rightarrow> fs')"

definition loadParsed ::
  "(string \<Rightarrow> parsed option) \<Rightarrow> string \<Rightarrow> filesystem \<Rightarrow> CommandLineHistory
     \<Rightarrow> CommandLineHistory \<times> filesystem" where
  "loadParsed JSON_parse data fs s =
     (if length data = 0 then (s, fs)
      else
        (case JSON_parse data of
           None \<Rightarrow> (s, clear fs s)
         | Some NotArray \<Rightarrow> (s, clear fs s)
         | Some (IsArray parsedData) \<Rightarrow> (s\<lparr>history' := parsedData\<rparr>, fs)))"

definition loadFromFile ::
  "(string \<Rightarrow> parsed option) \<Rightarrow> filesystem \<Rightarrow> CommandLineHistory
     \<Rightarrow> CommandLineHistory \<times> filesystem" where
  "loadFromFile JSON_parse fs s =
     (case readFileSync fs (historyFilePath s) of
        Inl err \<Rightarrow>
          if err = ENOENT then loadParsed JSON_parse [] fs s
          else (s, fs)
      | Inr data \<Rightarrow> loadParsed JSON_parse data fs s)"

definition CommandLineHistory_new ::
  "(string \<Rightarrow> parsed option) \<Rightarrow> filesystem \<Rightarrow> string \<Rightarrow> CommandLineHistory \<times> filesystem" where
  "CommandLineHistory_new JSON_parse fs dir =
     loadFromFile JSON_parse fs \<lparr>historyDir = dir, history' = []\<rparr>"

section \<open>The editing state\<close>

text \<open>
  The register modes of the editor, in the order of their declaration (the backend
  tables are indexed by it), and the requests sent to the backend process.
\<close>

datatype RegisterMode = FigureItOutFromCurrentMode | CharacterWise | LineWise | BlockWise

datatype nvim_request =
    setOption string bool
  | setLines int int bool "string list"
  | setpos string int int int bool
  | setreg string string "string option"
  | command_request string
  | input_request string

text \<open>
  The backend session: the requests sent so far, and what the process answers when it
  is asked for its mode, its messages, its buffer, its cursor and its unnamed register.
\<close>

record Neovim =
  requests :: "nvim_request list"
  blocking :: bool
  errmsg :: string
  statusmsg :: string
  nvim_lines :: "string list"
  dot_lnum :: int
  dot_col :: int
  regtype :: string
  reg :: string

text \<open>
  What the user is shown, and the commands handed to the host editor: the status bar,
  the error message box and the command executor are shared collaborators, threaded
  here with the state.
\<close>

datatype ui_event =
    StatusBar_SetText string
  | Message_ShowError string
  | executeCommand string

record IMark =
  name :: string
  position :: Position

record VimState =
  cursorPosition :: Position
  cursorStartPosition :: Position
  editor :: TextEditor
  marks :: "IMark list"
  register_text :: string
  effectiveRegisterMode :: RegisterMode
  currentRegisterMode :: "RegisterMode option"
  nvim :: Neovim
  ui :: "ui_event list"

text \<open>
  Modelled from the spec: the mark table is kept by the history tracker, which is not
  among the sources. A mark is a name with a buffer position; \<open>getMark\<close> gives the mark
  of that name if one is set, \<open>getMarks\<close> every tracked mark.
\<close>

definition getMark :: "VimState \<Rightarrow> string \<Rightarrow> IMark option" where
  "getMark vimState markName = find (\<lambda>m. name m = markName) (marks vimState)"

definition getMarks :: "VimState \<Rightarrow> IMark list" where
  "getMarks vimState = marks vimState"

text \<open>\<^verbatim>\<open>Math.min\<close> and \<^verbatim>\<open>Math.max\<close> applied to the arguments \<open>x, xs\<close>.\<close>

definition Math_min :: "int \<Rightarrow> int list \<Rightarrow> int" where
  "Math_min x xs = fold min xs x"

definition Math_max :: "int \<Rightarrow> int list \<Rightarrow> int" where
  "Math_max x xs = fold max xs x"

definition selectionFirst :: "Selection \<Rightarrow> int" where
  "selectionFirst s =
     (if isBeforeOrEqual (start s) (end' s) then line (start s) else line (end' s))"

definition selectionLast :: "Selection \<Rightarrow> int" where
  "selectionLast s =
     (if isAfter (start s) (end' s) then line (start s) else line (end' s))"

text \<open>
  \<open>lineRefToPosition\<close>. Reading \<^verbatim>\<open>toks[0].type\<close> of an empty list and reading
  \<^verbatim>\<open>.position\<close> of a mark that is not set both throw a \<open>TypeError\<close>. A line number whose
  content has no digit gives NaN in the source, which integers do not have: the model
  answers with the error \<open>Error ''NaN''\<close> there, and no statement below is about that
  case (the tokenizer builds a line number from digits only).
\<close>

definition lineRefToPosition :: "TextEditor \<Rightarrow> Token list \<Rightarrow> VimState \<Rightarrow> error + Position" where
  "lineRefToPosition doc toks vimState =
     (case toks of
        [] \<Rightarrow> Inl (TypeError ''Cannot read property type of undefined'')
      | first # rest \<Rightarrow>
          (case type first of
             Dollar \<Rightarrow> Inr \<lparr>line = lineCount (document doc) - 1, character = 0\<rparr>
           | Percent \<Rightarrow> Inr \<lparr>line = lineCount (document doc) - 1, character = 0\<rparr>
           | Dot \<Rightarrow> Inr \<lparr>line = line (active (selection doc)), character = 0\<rparr>
           | LineNumber \<Rightarrow>
               (case parseInt10 (content first) of
                  None \<Rightarrow> Inl (Error ''NaN'')
                | Some n \<Rightarrow>
                    Inr \<lparr>line = min (lineCount (document doc)) (max 0 (n - 1)),
                         character = 0\<rparr>)
           | SelectionFirstLine \<Rightarrow>
               Inr \<lparr>line = Math_min (selectionFirst (selection doc))
                                    (map selectionFirst (otherSelections doc)),
                    character = 0\<rparr>
           | SelectionLastLine \<Rightarrow>
               Inr \<lparr>line = Math_max (selectionLast (selection doc))
                                    (map selectionLast (otherSelections doc)),
                    character = 0\<rparr>
           | Mark \<Rightarrow>
               (case getMark vimState (content first) of
                  None \<Rightarrow> Inl (TypeError ''Cannot read property position of undefined'')
                | Some m \<Rightarrow> Inr (position m))
           | _ \<Rightarrow> Inl (Error ''Not Implemented'')))"

text \<open>
  A method that changes the state and may throw: \<open>Inr\<close> is the state it returns with,
  \<open>Inl\<close> the error thrown together with the state left behind.
\<close>

type_synonym 's outcome = "(error \<times> 's) + 's"

definition LineRange_execute :: "LineRange \<Rightarrow> TextEditor \<Rightarrow> VimState \<Rightarrow> VimState outcome" where
  "LineRange_execute r doc vimState =
     (if LineRange_isEmpty r then Inr vimState
      else
        (let lineRef = (if length (right r) = 0 then left r else right r)
         in case lineRefToPosition doc lineRef vimState of
              Inl e \<Rightarrow> Inl (e, vimState)
            | Inr pos \<Rightarrow>
                (let v1 = vimState\<lparr>cursorPosition :=
                            setLocation (cursorPosition vimState) (line pos) (character pos)\<rparr>
                 in Inr (v1\<lparr>cursorStartPosition := cursorPosition v1\<rparr>))))"

text \<open>The spec's \<open>clamp\<close> of a value into the interval from \<open>lo\<close> to \<open>hi\<close>.\<close>

definition clamp :: "int \<Rightarrow> int \<Rightarrow> int \<Rightarrow> int" where
  "clamp x lo hi = (if x < lo then lo else if hi < x then hi else x)"

subsection \<open>Commands\<close>

text \<open>
  A command object: its delegation flag and its two entry points.
  \<open>executeWithRange_default\<close> is the body that \<open>CommandBase\<close> gives to a command that does
  not override it.
\<close>

record CommandBase =
  neovimCapable :: bool
  execute :: "VimState \<Rightarrow> VimState outcome"
  executeWithRange :: "VimState \<Rightarrow> LineRange \<Rightarrow> VimState outcome"

definition executeWithRange_default :: "VimState \<Rightarrow> LineRange \<Rightarrow> VimState outcome" where
  "executeWithRange_default vimState r = Inl (Error ''Not implemented!'', vimState)"

record node_CommandLine =
  range' :: LineRange
  command :: "CommandBase option"

definition CommandLine_execute :: "node_CommandLine \<Rightarrow> TextEditor \<Rightarrow> VimState \<Rightarrow> VimState outcome" where
  "CommandLine_execute cl doc vimState =
     (case command cl of
        None \<Rightarrow> LineRange_execute (range' cl) doc vimState
      | Some c \<Rightarrow>
          if LineRange_isEmpty (range' cl) then execute c vimState
          else executeWithRange c vimState (range' cl))"

section \<open>The backend bridge (neovim.ts)\<close>

definition send :: "nvim_request \<Rightarrow> VimState \<Rightarrow> VimState" where
  "send rq v = v\<lparr>nvim := (nvim v)\<lparr>requests := requests (nvim v) @ [rq]\<rparr>\<rparr>"

definition emit :: "ui_event \<Rightarrow> VimState \<Rightarrow> VimState" where
  "emit ev v = v\<lparr>ui := ui v @ [ev]\<rparr>"

text \<open>
  \<^verbatim>\<open>s.split('\n')\<close> and \<^verbatim>\<open>lines.join('\n')\<close>; the text of a document is its lines
  joined.
\<close>

fun split_on :: "char \<Rightarrow> string \<Rightarrow> string list" where
  "split_on sep [] = [[]]"
| "split_on sep (c # cs) =
     (if c = sep then [] # split_on sep cs
      else (case split_on sep cs of
              [] \<Rightarrow> [[c]]
            | l # ls \<Rightarrow> (c # l) # ls))"

fun join_lines :: "string list \<Rightarrow> string" where
  "join_lines [] = []"
| "join_lines [l] = l"
| "join_lines (l # ls) = l @ [CHR 0x0A] @ join_lines ls"

definition getText :: "VimState \<Rightarrow> string" where
  "getText v = join_lines (lines (document (editor v)))"

text \<open>
  \<^verbatim>\<open>s.replace(pattern, replacement)\<close> with a string pattern: the first occurrence of the
  pattern is replaced, the rest of the text is kept.
\<close>

fun replace :: "string \<Rightarrow> string \<Rightarrow> string \<Rightarrow> string" where
  "replace pat rep [] = (if pat = [] then rep else [])"
| "replace pat rep (c # cs) =
     (if take (length pat) (c # cs) = pat then rep @ drop (length pat) (c # cs)
      else c # replace pat rep cs)"

text \<open>\<^verbatim>\<open>line.replace(/\r$/, '')\<close>: a carriage return that ends the line is dropped.\<close>

definition strip_cr :: "string \<Rightarrow> string" where
  "strip_cr l = (if l \<noteq> [] \<and> last l = CHR 0x0D then butlast l else l)"

text \<open>The two register tables of the bridge.\<close>

fun vsRegTovimReg :: "RegisterMode \<Rightarrow> string option" where
  "vsRegTovimReg FigureItOutFromCurrentMode = None"
| "vsRegTovimReg CharacterWise = Some ''c''"
| "vsRegTovimReg LineWise = Some ''l''"
| "vsRegTovimReg BlockWise = Some ''b''"

definition vimRegToVsReg :: "string \<Rightarrow> RegisterMode option" where
  "vimRegToVsReg t =
     (if t = ''v'' then Some CharacterWise
      else if t = ''V'' then Some LineWise
      else if t = [CHR 0x16] then Some BlockWise
      else None)"

definition mark_request :: "IMark \<Rightarrow> nvim_request" where
  "mark_request mark =
     setpos (CHR 0x27 # name mark) 0 (line (position mark) + 1) (character (position mark)) False"

text \<open>
  \<open>syncVSToVim\<close>. The conversion of the indentation that the host editor performs when
  it is handed \<^verbatim>\<open>editor.action.indentationToTabs\<close> is the editor's own; the model
  records that the command was handed over.
\<close>

definition syncVSToVim :: "configuration \<Rightarrow> VimState \<Rightarrow> VimState" where
  "syncVSToVim cfg vimState =
     (let v0 = (if expandtab cfg
                then emit (executeCommand ''editor.action.indentationToTabs'') vimState
                else vimState);
          v1 = send (setOption ''gdefault'' (substituteGlobalFlag cfg = True)) v0;
          v2 = send (setLines 0 (- 1) True (split_on (CHR 0x0A) (getText v1))) v1;
          rangeStart = EarlierOf (cursorPosition v2) (cursorStartPosition v2);
          rangeEnd = LaterOf (cursorPosition v2) (cursorStartPosition v2);
          v3 = send (setpos ''.'' 0 (line (cursorPosition v2) + 1)
                       (character (cursorPosition v2)) False) v2;
          v4 = send (setpos [CHR 0x27, CHR ''<''] 0 (line rangeStart + 1)
                       (character rangeEnd) False) v3;
          v5 = send (setpos [CHR 0x27, CHR ''>''] 0 (line rangeEnd + 1)
                       (character rangeEnd) False) v4;
          v6 = fold (\<lambda>mark. send (mark_request mark)) (getMarks v5) v5
      in send (setreg [CHR 0x22] (register_text v6)
                 (vsRegTovimReg (effectiveRegisterMode v6))) v6)"

text \<open>
  \<open>syncVimToVs\<close>; \<open>win32\<close> says whether the platform is the one whose lines come back
  with a carriage return.
\<close>

definition syncVimToVs :: "configuration \<Rightarrow> bool \<Rightarrow> VimState \<Rightarrow> VimState" where
  "syncVimToVs cfg win32 vimState =
     (let lines' = nvim_lines (nvim vimState);
          fixedLines = (if win32 then map strip_cr lines' else lines');
          v1 = vimState\<lparr>editor := (editor vimState)
                 \<lparr>document := \<lparr>lines = split_on (CHR 0x0A) (join_lines fixedLines)\<rparr>\<rparr>\<rparr>;
          row = dot_lnum (nvim v1);
          character' = dot_col (nvim v1);
          p = \<lparr>line = row - 1, character = character'\<rparr>;
          v2 = v1\<lparr>editor := (editor v1)
                 \<lparr>selection := \<lparr>start = p, end' = p, active = p\<rparr>, otherSelections := []\<rparr>\<rparr>;
          v3 = (if expandtab cfg
                then emit (executeCommand ''editor.action.indentationToSpaces'') v2
                else v2);
          v4 = v3\<lparr>currentRegisterMode := vimRegToVsReg (regtype (nvim v3))\<rparr>
      in v4\<lparr>register_text := reg (nvim v4)\<rparr>)"

definition Neovim_run :: "configuration \<Rightarrow> bool \<Rightarrow> VimState \<Rightarrow> string \<Rightarrow> VimState" where
  "Neovim_run cfg win32 vimState command0 =
     (let v1 = syncVSToVim cfg vimState;
          command1 = '':'' @ command0 @ [CHR 0x0A];
          command2 = replace ''<'' ''<lt>'' command1;
          v2 = send (command_request ''let v:errmsg=\"\" | let v:statusmsg=\"\"'') v1;
          v3 = send (input_request command2) v2;
          v4 = (if blocking (nvim v3) then send (input_request ''<esc>'') v3 else v3);
          errMsg = errmsg (nvim v4);
          statusBarText =
            (if errMsg \<noteq> [] then errMsg
             else (let statusMsg = statusmsg (nvim v4)
                   in if statusMsg \<noteq> [] then statusMsg else []));
          v5 = syncVimToVs cfg win32 v4
      in emit (StatusBar_SetText statusBarText) v5)"

definition Neovim_input :: "configuration \<Rightarrow> bool \<Rightarrow> VimState \<Rightarrow> string \<Rightarrow> VimState" where
  "Neovim_input cfg win32 vimState keys =
     syncVimToVs cfg win32 (send (input_request keys) (syncVSToVim cfg vimState))"

text \<open>
  The spec's escaping of a command text for injection: every \<open><\<close> becomes \<open><lt>\<close>.
\<close>

definition escape_lt :: "string \<Rightarrow> string" where
  "escape_lt s = concat (map (\<lambda>c. if c = CHR ''<'' then ''<lt>'' else [c]) s)"

section \<open>The command-line engine (commandLine.ts)\<close>

record CommandLine =
  history'' :: CommandLineHistory
  commandLineHistoryIndex :: int

definition stripColon :: "string \<Rightarrow> string" where
  "stripColon command0 =
     (if command0 \<noteq> [] \<and> hd command0 = CHR '':'' then tl command0 else command0)"

text \<open>
  The body of the \<^verbatim>\<open>try\<close> block of \<open>Run\<close>, and its \<^verbatim>\<open>catch\<close> block. The parser
  (\<^verbatim>\<open>parser.ts\<close>) is the parameter \<open>parse\<close>; the call of the bridge, which can fail with
  the channel, is the parameter \<open>nvim_run\<close>.
\<close>

definition Run_try ::
  "configuration \<Rightarrow> (string \<Rightarrow> error + node_CommandLine) \<Rightarrow> (VimState \<Rightarrow> string \<Rightarrow> VimState outcome)
     \<Rightarrow> string \<Rightarrow> VimState \<Rightarrow> VimState outcome" where
  "Run_try cfg parse nvim_run command0 vimState =
     (case parse command0 of
        Inl e \<Rightarrow> Inl (e, vimState)
      | Inr cmd \<Rightarrow>
          (let useNeovim =
                 (enableNeovim cfg \<and>
                  (case command cmd of None \<Rightarrow> False | Some c \<Rightarrow> neovimCapable c))
           in if useNeovim then nvim_run vimState command0
              else CommandLine_execute cmd (editor vimState) vimState))"

definition Run_catch ::
  "configuration \<Rightarrow> (VimState \<Rightarrow> string \<Rightarrow> VimState outcome) \<Rightarrow> string \<Rightarrow> error \<Rightarrow> VimState
     \<Rightarrow> VimState outcome" where
  "Run_catch cfg nvim_run command0 e vimState =
     (case e of
        VimError code txt \<Rightarrow>
          if code = E492 \<and> enableNeovim cfg then nvim_run vimState command0
          else Inr (emit (StatusBar_SetText (toString e @ ''. '' @ command0)) vimState)
      | _ \<Rightarrow> Inr (emit (Message_ShowError (toString e)) vimState))"

definition Run ::
  "configuration \<Rightarrow> (string \<Rightarrow> error + node_CommandLine) \<Rightarrow> (VimState \<Rightarrow> string \<Rightarrow> VimState outcome)
     \<Rightarrow> string \<Rightarrow> CommandLine \<times> VimState \<Rightarrow> (CommandLine \<times> VimState) outcome" where
  "Run cfg parse nvim_run command0 st =
     (if length command0 = 0 then Inr st
      else
        (let command1 = stripColon command0;
             h = get cfg (add cfg (Some command1) (history'' (fst st)));
             cl = (fst st)\<lparr>history'' := fst h, commandLineHistoryIndex := int (length (snd h))\<rparr>
         in case Run_try cfg parse nvim_run command1 (snd st) of
              Inr v \<Rightarrow> Inr (cl, v)
            | Inl (e, v) \<Rightarrow>
                (case Run_catch cfg nvim_run command1 e v of
                   Inr v' \<Rightarrow> Inr (cl, v')
                 | Inl (e', v') \<Rightarrow> Inl (e', (cl, v')))))"

text \<open>The state a call ends with, returned or thrown, and its editing part.\<close>

definition final :: "'s outcome \<Rightarrow> 's" where
  "final r = (case r of Inl (e, s) \<Rightarrow> s | Inr s \<Rightarrow> s)"

definition editing :: "(CommandLine \<times> VimState) outcome \<Rightarrow> VimState outcome" where
  "editing r = (case r of Inl (e, s) \<Rightarrow> Inl (e, snd s) | Inr s \<Rightarrow> Inr (snd s))"

section \<open>Well-formed ranges\<close>

text \<open>
  The shape of a range that the parser can build: a right side only after a separator,
  and on each side nothing but offsets after the first token. \<open>current_side\<close> is the side
  that the next address token goes to.
\<close>

definition offsets_only :: "Token list \<Rightarrow> bool" where
  "offsets_only toks = list_all (\<lambda>t. type t = Offset) toks"

definition LineRange_inv :: "LineRange \<Rightarrow> bool" where
  "LineRange_inv r =
     ((right r \<noteq> [] \<longrightarrow> separator r \<noteq> None)
      \<and> offsets_only (tl (left r)) \<and> offsets_only (tl (right r)))"

definition current_side :: "LineRange \<Rightarrow> Token list" where
  "current_side r = (if separator r = None then left r else right r)"

text \<open>A token that is not the separator.\<close>

definition not_comma :: "Token \<Rightarrow> bool" where
  "not_comma t = (type t \<noteq> Comma)"

section \<open>The store before loading\<close>

text \<open>The store as the constructor sets it up before it reads the history file.\<close>

definition store0 :: "string \<Rightarrow> CommandLineHistory" where
  "store0 dir = \<lparr>historyDir = dir, history' = []\<rparr>"

section \<open>Sample inputs\<close>

definition tk :: "TokenType \<Rightarrow> string \<Rightarrow> Token" where
  "tk k c = \<lparr>type = k, content = c\<rparr>"

definition cfg2 :: configuration where
  "cfg2 = \<lparr>enableNeovim = False, history = 2, expandtab = False,
           substituteGlobalFlag = False\<rparr>"

definition ed3 :: TextEditor where
  "ed3 = \<lparr>document = \<lparr>lines = [''aba'', ''ab'', ''c'']\<rparr>,
          selection = \<lparr>start = \<lparr>line = 1, character = 0\<rparr>, end' = \<lparr>line = 1, character = 1\<rparr>,
                       active = \<lparr>line = 1, character = 1\<rparr>\<rparr>,
          otherSelections = []\<rparr>"

definition nvim0 :: Neovim where
  "nvim0 = \<lparr>requests = [], blocking = False, errmsg = [], statusmsg = [], nvim_lines = [''x''],
            dot_lnum = 1, dot_col = 0, regtype = ''v'', reg = []\<rparr>"

definition vs3 :: VimState where
  "vs3 = \<lparr>cursorPosition = \<lparr>line = 1, character = 1\<rparr>,
          cursorStartPosition = \<lparr>line = 1, character = 1\<rparr>,
          editor = ed3,
          marks = [\<lparr>name = ''a'', position = \<lparr>line = 2, character = 1\<rparr>\<rparr>],
          register_text = [], effectiveRegisterMode = CharacterWise,
          currentRegisterMode = None, nvim = nvim0, ui = []\<rparr>"

definition range_1_to_last :: LineRange where
  "range_1_to_last =
     \<lparr>left = [tk LineNumber ''1'', tk Offset ''+2'', tk Offset ''-1''],
      separator = Some (tk Comma '',''),
      right = [tk Dollar ''$'', tk Offset ''-1'']\<rparr>"

definition bare_1_to_last :: node_CommandLine where
  "bare_1_to_last = \<lparr>range' = range_1_to_last, command = None\<rparr>"

definition cfg_nvim :: configuration where
  "cfg_nvim = \<lparr>enableNeovim = True, history = 50, expandtab = False,
               substituteGlobalFlag = False\<rparr>"

definition unsupported :: error where
  "unsupported = VimError E492 ''E492: Not an editor command''"

text \<open>A command that is not eligible for delegation and whose execution throws.\<close>

definition failing_command :: CommandBase where
  "failing_command =
     \<lparr>neovimCapable = False,
      execute = (\<lambda>v. Inl (unsupported, v)),
      executeWithRange = executeWithRange_default\<rparr>"

text \<open>A parser that knows three command texts and rejects every other.\<close>

definition parse_sample :: "string \<Rightarrow> error + node_CommandLine" where
  "parse_sample text =
     (if text = ''w'' then Inr \<lparr>range' = LineRange_new, command = Some failing_command\<rparr>
      else if text = ''$'' then
        Inr \<lparr>range' = \<lparr>left = [tk Dollar ''$''], separator = None, right = []\<rparr>, command = None\<rparr>
      else if text = ''frob'' then Inl unsupported
      else Inl (Error ''not a Vim command''))"

text \<open>A bridge whose channel answers, and one whose channel is closed.\<close>

definition nvim_up :: "configuration \<Rightarrow> VimState \<Rightarrow> string \<Rightarrow> VimState outcome" where
  "nvim_up cfg v c = Inr (Neovim_run cfg False v c)"

definition nvim_down :: "VimState \<Rightarrow> string \<Rightarrow> VimState outcome" where
  "nvim_down v c = Inl (Error ''channel closed'', v)"

definition cl0 :: CommandLine where
  "cl0 = \<lparr>history'' = \<lparr>historyDir = ''d'', history' = []\<rparr>, commandLineHistoryIndex = 0\<rparr>"

text \<open>What the platform's JSON parser answers on the texts used below.\<close>

definition JSON_parse_sample :: "string \<Rightarrow> parsed option" where
  "JSON_parse_sample text =
     (if text = ''[\"w\",\"q\"]'' then Some (IsArray [''w'', ''q''])
      else if text = ''[]'' then Some (IsArray [])
      else if text = ''{}'' then Some NotArray
      else if text = ''42'' then Some NotArray
      else None)"

definition fs_with :: "string \<Rightarrow> filesystem" where
  "fs_with data =
     \<lparr>files = (\<lambda>p. if p = ''d/.cmdline_history'' then Some data else None),
      read_denied = (\<lambda>p. False), unlink_denied = (\<lambda>p. False)\<rparr>"

definition fs_none :: filesystem where
  "fs_none = \<lparr>files = (\<lambda>p. None), read_denied = (\<lambda>p. False), unlink_denied = (\<lambda>p. False)\<rparr>"

definition vs_sel :: VimState where
  "vs_sel = vs3\<lparr>cursorPosition := \<lparr>line = 0, character = 1\<rparr>,
                cursorStartPosition := \<lparr>line = 2, character = 5\<rparr>, marks := []\<rparr>"

section \<open>Properties of the history store\<close>

lemma resize_newest: "resize cfg h = newest (history cfg) h"
proof (cases "0 \<le> history cfg")
  case True
  then have "nat (int (length h) - history cfg) = length h - nat (history cfg)"
    by arith
  moreover have "\<not> history cfg < int (length h) \<Longrightarrow> length h - nat (history cfg) = 0"
    using True by arith
  ultimately show ?thesis
    by (simp add: resize_def newest_def slice_from_def)
next
  case False
  then have "length h \<le> nat (int (length h) - history cfg)" "nat (history cfg) = 0"
    by arith+
  with False show ?thesis
    by (simp add: resize_def newest_def slice_from_def)
qed

lemma newest_rev: "newest cap xs = rev (take (nat cap) (rev xs))"
  by (simp add: newest_def take_rev)

lemma take_remove1_take: "take m (remove1 e (take (Suc m) ys)) = take m (remove1 e ys)"
proof (induction ys arbitrary: m)
  case Nil
  show ?case by simp
next
  case (Cons y ys)
  show ?case
  proof (cases m)
    case 0
    then show ?thesis by simp
  next
    case (Suc m')
    with Cons.IH [of m'] show ?thesis by simp
  qed
qed

lemma filter_neq_id: "e \<notin> set xs \<Longrightarrow> filter (\<lambda>x. x \<noteq> e) xs = xs"
  by (induction xs) auto

lemma distinct_remove1_filter: "distinct xs \<Longrightarrow> remove1 e xs = filter (\<lambda>x. x \<noteq> e) xs"
  by (induction xs) (auto simp: filter_neq_id)

lemma rev_remove1_distinct: "distinct xs \<Longrightarrow> rev (remove1 e xs) = remove1 e (rev xs)"
  by (simp add: distinct_remove1_filter rev_filter)

lemma distinct_newest: "distinct xs \<Longrightarrow> distinct (newest cap xs)"
  by (simp add: newest_def)

lemma newest_move_to_end:
  assumes "distinct xs"
  shows "newest cap (remove1 e (newest cap xs) @ [e]) = newest cap (remove1 e xs @ [e])"
proof (cases "nat cap")
  case 0
  then show ?thesis by (simp add: newest_def)
next
  case (Suc m)
  have d: "distinct (newest cap xs)" using assms by (rule distinct_newest)
  have "rev (remove1 e (newest cap xs)) = remove1 e (take (Suc m) (rev xs))"
    using rev_remove1_distinct [OF d] Suc by (simp add: newest_rev)
  moreover have "rev (remove1 e xs) = remove1 e (rev xs)"
    using assms by (rule rev_remove1_distinct)
  ultimately show ?thesis
    using Suc by (simp add: newest_rev take_remove1_take)
qed

lemma remdups_snoc: "remdups (xs @ [e]) = remove1 e (remdups xs) @ [e]"
  by (induction xs) (auto simp: remove1_idem)

lemma newest_idem: "newest cap (newest cap xs) = newest cap xs"
  by (simp add: newest_def)

lemma add_None: "add cfg None s = s"
  by (simp add: add_def)

lemma add_empty: "add cfg (Some []) s = s"
  by (simp add: add_def)

lemma add_Some:
  "c \<noteq> [] \<Longrightarrow> history' (add cfg (Some c) s) = newest (history cfg) (remove1 c (history' s) @ [c])"
  by (simp add: add_def resize_newest)

lemma add_all_snoc: "add_all cfg (cmds @ [c]) s = add cfg c (add_all cfg cmds s)"
  by (simp add: add_all_def)

lemma nonempty_entries_snoc:
  "nonempty_entries (cmds @ [c]) =
     nonempty_entries cmds @ (case c of None \<Rightarrow> [] | Some s \<Rightarrow> if s = [] then [] else [s])"
  by (simp add: nonempty_entries_def)

lemma add_all_history:
  assumes "distinct (history' s)"
  shows "history' (add_all cfg cmds s) =
           (if nonempty_entries cmds = [] then history' s
            else newest (history cfg) (remdups (history' s @ nonempty_entries cmds)))"
proof (induction cmds rule: rev_induct)
  case Nil
  show ?case by (simp add: add_all_def nonempty_entries_def)
next
  case (snoc c cmds)
  let ?H = "history' (add_all cfg cmds s)"
  let ?L = "remdups (history' s @ nonempty_entries cmds)"
  show ?case
  proof (cases "\<exists>e. c = Some e \<and> e \<noteq> []")
    case False
    then have "add cfg c (add_all cfg cmds s) = add_all cfg cmds s"
      by (cases c) (auto simp: add_None add_empty)
    moreover from False have "nonempty_entries (cmds @ [c]) = nonempty_entries cmds"
      by (cases c) (auto simp: nonempty_entries_snoc)
    ultimately show ?thesis using snoc.IH by (simp add: add_all_snoc)
  next
    case True
    then obtain e where c: "c = Some e" and e: "e \<noteq> []" by blast
    have ne: "nonempty_entries (cmds @ [c]) = nonempty_entries cmds @ [e]"
      using c e by (simp add: nonempty_entries_snoc)
    have "newest (history cfg) (remove1 e ?H @ [e]) = newest (history cfg) (remove1 e ?L @ [e])"
    proof (cases "nonempty_entries cmds = []")
      case True
      with snoc.IH assms show ?thesis by (simp add: distinct_remdups_id)
    next
      case False
      with snoc.IH have "?H = newest (history cfg) ?L" by simp
      then show ?thesis by (simp add: newest_move_to_end)
    qed
    also have "remove1 e ?L @ [e] = remdups (history' s @ nonempty_entries (cmds @ [c]))"
      using remdups_snoc [of "history' s @ nonempty_entries cmds" e] ne by simp
    finally show ?thesis
      using c e ne by (simp add: add_all_snoc add_Some)
  qed
qed

lemma get_add_all:
  assumes "distinct (history' s)"
  shows "snd (get cfg (add_all cfg cmds s)) =
           newest (history cfg) (remdups (history' s @ nonempty_entries cmds))"
  using add_all_history [OF assms, of cfg cmds] assms
  by (simp add: get_def resize_newest newest_idem distinct_remdups_id)

lemma length_newest: "0 \<le> cap \<Longrightarrow> cap < int (length xs) \<Longrightarrow> int (length (newest cap xs)) = cap"
  by (simp add: newest_def) 

lemma foo_bar_foo: "2 \<le> cap \<Longrightarrow> spec_history cap [Some ''foo'', Some ''bar'', Some ''foo''] = [''bar'', ''foo'']"
  by (simp add: spec_history_def nonempty_entries_def newest_def)

text \<open>
  C3. \<open>add\<close> ignores an undefined and an empty entry. On a history without duplicates,
  adding a non-empty entry removes the equal entry, appends the new one at the end and
  keeps the newest entries up to the cap, dropping from the front. After any sequence of
  \<open>add\<close> calls on a fresh store, \<open>get\<close> returns what the specification describes: the
  non-empty entries, each at its last occurrence, cut from the front to the cap. With a
  cap of at least two, adding foo, bar, foo gives bar, foo; once more distinct entries
  than a cap \<open>N \<ge> 0\<close> have been added, \<open>get\<close> returns exactly \<open>N\<close> entries.
\<close>

theorem history_add_dedup_cap:
  "add cfg None s = s
   \<and> add cfg (Some []) s = s
   \<and> (c \<noteq> [] \<longrightarrow> distinct (history' s) \<longrightarrow>
        history' (add cfg (Some c) s)
          = newest (history cfg) (filter (\<lambda>x. x \<noteq> c) (history' s) @ [c]))
   \<and> (distinct (history' s) \<longrightarrow>
        snd (get cfg (add_all cfg cmds s))
          = newest (history cfg) (remdups (history' s @ nonempty_entries cmds)))
   \<and> snd (get cfg (add_all cfg cmds \<lparr>historyDir = d, history' = []\<rparr>))
        = spec_history (history cfg) cmds
   \<and> (2 \<le> history cfg \<longrightarrow>
        snd (get cfg (add_all cfg [Some ''foo'', Some ''bar'', Some ''foo'']
                        \<lparr>historyDir = d, history' = []\<rparr>)) = [''bar'', ''foo''])
   \<and> (0 \<le> history cfg \<longrightarrow> history cfg < int (length (remdups (nonempty_entries cmds))) \<longrightarrow>
        int (length (snd (get cfg (add_all cfg cmds \<lparr>historyDir = d, history' = []\<rparr>))))
          = history cfg)"
proof -
  let ?s0 = "\<lparr>historyDir = d, history' = []\<rparr>"
  have from_empty: "snd (get cfg (add_all cfg xs ?s0)) = spec_history (history cfg) xs" for xs
    using get_add_all [of ?s0 cfg xs] by (simp add: spec_history_def)
  have step: "c \<noteq> [] \<Longrightarrow> distinct (history' s) \<Longrightarrow>
        history' (add cfg (Some c) s)
          = newest (history cfg) (filter (\<lambda>x. x \<noteq> c) (history' s) @ [c])"
    by (simp add: add_Some distinct_remove1_filter)
  have len: "0 \<le> history cfg \<Longrightarrow> history cfg < int (length (remdups (nonempty_entries cmds))) \<Longrightarrow>
        int (length (snd (get cfg (add_all cfg cmds ?s0)))) = history cfg"
    unfolding from_empty spec_history_def by (rule length_newest)
  show ?thesis
    using step len by (simp add: add_None add_empty get_add_all from_empty foo_bar_foo)
qed

theorem history_add_dedup_cap_witness:
  "''a'' \<noteq> [] \<and> distinct [''a'', ''b''] \<and> (2::int) \<le> 2 \<and> (0::int) \<le> 2
   \<and> (2::int) < int (length (remdups (nonempty_entries [Some ''x'', None, Some ''y'', Some ''x'', Some [], Some ''z''])))
   \<and> history' (add cfg2 (Some ''a'') \<lparr>historyDir = ''d'', history' = [''a'', ''b'']\<rparr>) = [''b'', ''a'']
   \<and> snd (get cfg2 (add_all cfg2 [Some ''x'', None, Some ''y'', Some ''x'', Some [], Some ''z'']
                      \<lparr>historyDir = ''d'', history' = [''a'', ''b'']\<rparr>)) = [''x'', ''z'']
   \<and> snd (get cfg2 (add_all cfg2 [Some ''foo'', Some ''bar'', Some ''foo'']
                      \<lparr>historyDir = ''d'', history' = []\<rparr>)) = [''bar'', ''foo'']
   \<and> int (length (snd (get cfg2 (add_all cfg2 [Some ''x'', None, Some ''y'', Some ''x'', Some [], Some ''z'']
                      \<lparr>historyDir = ''d'', history' = []\<rparr>)))) = 2"
  using history_add_dedup_cap [of cfg2 "\<lparr>historyDir = ''d'', history' = [''a'', ''b'']\<rparr>" "''a''"
          "[Some ''x'', None, Some ''y'', Some ''x'', Some [], Some ''z'']" "''d''"]
  by (simp add: cfg2_def newest_def nonempty_entries_def spec_history_def)

section \<open>Properties of ranges and addresses\<close>

lemma clamp_min_max: "0 \<le> hi \<Longrightarrow> min hi (max 0 x) = clamp x 0 hi"
  by (auto simp: clamp_def)

text \<open>
  C4. A line number token with value \<open>n\<close> resolves to line \<open>clamp (n - 1) 0 lineCount\<close>,
  column 0: the lower bound is 0 and the upper bound is the line count itself, not the
  index of the last line.
\<close>

theorem numeric_address_clamp:
  "type tok = LineNumber \<Longrightarrow> parseInt10 (content tok) = Some n \<Longrightarrow>
   lineRefToPosition doc (tok # rest) vimState
     = Inr \<lparr>line = clamp (n - 1) 0 (lineCount (document doc)), character = 0\<rparr>"
  using clamp_min_max [of "lineCount (document doc)" "n - 1"]
  by (simp add: lineRefToPosition_def lineCount_def)

lemma parseInt10_10: "parseInt10 ''10'' = Some 10"
  by (simp add: parseInt10_def isWhiteSpace_def isDigit_def digitValue_def)

theorem numeric_address_clamp_witness:
  "type \<lparr>type = LineNumber, content = ''10''\<rparr> = LineNumber
   \<and> parseInt10 (content \<lparr>type = LineNumber, content = ''10''\<rparr>) = Some 10
   \<and> lineRefToPosition ed3 [\<lparr>type = LineNumber, content = ''10''\<rparr>] vs3
       = Inr \<lparr>line = 3, character = 0\<rparr>"
  using numeric_address_clamp [of "\<lparr>type = LineNumber, content = ''10''\<rparr>" 10 ed3 "[]" vs3]
  by (simp add: parseInt10_10 clamp_def ed3_def lineCount_def)

lemma offsets_only_tl_snoc:
  "offsets_only (tl xs) \<Longrightarrow> xs = [] \<or> type t = Offset \<Longrightarrow> offsets_only (tl (xs @ [t]))"
  by (cases xs) (auto simp: offsets_only_def)

lemma addToken_inv:
  assumes "LineRange_inv r" and "addToken r tok = Inr r'"
  shows "LineRange_inv r'"
proof (cases "type tok = Comma")
  case True
  with assms show ?thesis by (auto simp: addToken_def LineRange_inv_def)
next
  case False
  show ?thesis
  proof (cases "separator r = None")
    case True
    with False assms(2) have r': "r' = r\<lparr>left := left r @ [tok]\<rparr>"
      and ok: "left r = [] \<or> type tok = Offset"
      by (auto simp: addToken_def split: if_splits)
    from assms(1) have "offsets_only (tl (left r))" by (simp add: LineRange_inv_def)
    then have "offsets_only (tl (left r @ [tok]))" using ok by (rule offsets_only_tl_snoc)
    with assms(1) show ?thesis by (simp add: r' LineRange_inv_def)
  next
    case sep: False
    with False assms(2) have r': "r' = r\<lparr>right := right r @ [tok]\<rparr>"
      and ok: "right r = [] \<or> type tok = Offset"
      by (auto simp: addToken_def split: if_splits)
    from assms(1) have "offsets_only (tl (right r))" by (simp add: LineRange_inv_def)
    then have "offsets_only (tl (right r @ [tok]))" using ok by (rule offsets_only_tl_snoc)
    with assms(1) sep show ?thesis by (simp add: r' LineRange_inv_def)
  qed
qed

lemma addTokens_inv: "LineRange_inv r \<Longrightarrow> addTokens r toks = Inr r' \<Longrightarrow> LineRange_inv r'"
proof (induction toks arbitrary: r)
  case Nil
  then show ?case by simp
next
  case (Cons tok toks)
  from Cons.prems(2) obtain r1 where 1: "addToken r tok = Inr r1" and 2: "addTokens r1 toks = Inr r'"
    by (auto split: sum.splits)
  from Cons.prems(1) 1 have "LineRange_inv r1" by (rule addToken_inv)
  then show ?case using 2 by (rule Cons.IH)
qed

lemma LineRange_new_inv: "LineRange_inv LineRange_new"
  by (simp add: LineRange_inv_def LineRange_new_def offsets_only_def)

lemma addToken_second_primary:
  "type tok \<noteq> Comma \<Longrightarrow> type tok \<noteq> Offset \<Longrightarrow> current_side r \<noteq> [] \<Longrightarrow>
   addToken r tok = Inl (Error ''not a Vim command'')"
  by (cases "separator r = None") (simp_all add: addToken_def current_side_def)

lemma addToken_offset:
  "type tok = Offset \<Longrightarrow>
   addToken r tok = Inr (if separator r = None then r\<lparr>left := left r @ [tok]\<rparr>
                         else r\<lparr>right := right r @ [tok]\<rparr>)"
  by (simp add: addToken_def)

lemma addTokens_after_separator:
  "separator r \<noteq> None \<Longrightarrow> addTokens r toks = Inr r' \<Longrightarrow>
   left r' = left r \<and> right r' = right r @ filter not_comma toks \<and> separator r' \<noteq> None"
proof (induction toks arbitrary: r)
  case Nil
  then show ?case by simp
next
  case (Cons tok toks)
  from Cons.prems(2) obtain r1 where 1: "addToken r tok = Inr r1" and 2: "addTokens r1 toks = Inr r'"
    by (auto split: sum.splits)
  show ?case
  proof (cases "type tok = Comma")
    case True
    with 1 have r1: "r1 = r\<lparr>separator := Some tok\<rparr>" by (simp add: addToken_def)
    then have "separator r1 \<noteq> None" by simp
    moreover from True have "\<not> not_comma tok" by (simp add: not_comma_def)
    ultimately show ?thesis using Cons.IH [OF _ 2] r1 by simp
  next
    case False
    with 1 Cons.prems(1) have r1: "r1 = r\<lparr>right := right r @ [tok]\<rparr>"
      by (auto simp: addToken_def split: if_splits)
    with Cons.prems(1) have "separator r1 \<noteq> None" by simp
    moreover from False have "not_comma tok" by (simp add: not_comma_def)
    ultimately show ?thesis using Cons.IH [OF _ 2] r1 by simp
  qed
qed

lemma addTokens_before_separator:
  "separator r = None \<Longrightarrow> addTokens r toks = Inr r' \<Longrightarrow>
   left r' = left r @ takeWhile not_comma toks
   \<and> right r' = right r @ filter not_comma (dropWhile not_comma toks)
   \<and> (separator r' = None \<longleftrightarrow> (\<forall>t\<in>set toks. not_comma t))"
proof (induction toks arbitrary: r)
  case Nil
  then show ?case by simp
next
  case (Cons tok toks)
  from Cons.prems(2) obtain r1 where 1: "addToken r tok = Inr r1" and 2: "addTokens r1 toks = Inr r'"
    by (auto split: sum.splits)
  show ?case
  proof (cases "type tok = Comma")
    case True
    with 1 have r1: "r1 = r\<lparr>separator := Some tok\<rparr>" by (simp add: addToken_def)
    then have "separator r1 \<noteq> None" by simp
    moreover from True have "\<not> not_comma tok" by (simp add: not_comma_def)
    ultimately show ?thesis using addTokens_after_separator [OF _ 2] r1 by simp
  next
    case False
    with 1 Cons.prems(1) have r1: "r1 = r\<lparr>left := left r @ [tok]\<rparr>"
      by (auto simp: addToken_def split: if_splits)
    with Cons.prems(1) have "separator r1 = None" by simp
    moreover from False have "not_comma tok" by (simp add: not_comma_def)
    ultimately show ?thesis using Cons.IH [OF _ 2] r1 by simp
  qed
qed

lemma addTokens_separator_is_comma:
  "addTokens r toks = Inr r' \<Longrightarrow> separator r' = Some s \<Longrightarrow>
   separator r = Some s \<or> (s \<in> set toks \<and> type s = Comma)"
proof (induction toks arbitrary: r)
  case Nil
  then show ?case by simp
next
  case (Cons tok toks)
  from Cons.prems(1) obtain r1 where 1: "addToken r tok = Inr r1" and 2: "addTokens r1 toks = Inr r'"
    by (auto split: sum.splits)
  from Cons.IH [OF 2 Cons.prems(2)]
  have "separator r1 = Some s \<or> (s \<in> set toks \<and> type s = Comma)" .
  moreover have "separator r1 = Some s \<Longrightarrow> separator r = Some s \<or> (s = tok \<and> type s = Comma)"
    using 1 by (auto simp: addToken_def split: if_splits)
  ultimately show ?case by auto
qed

lemma right_needs_comma:
  assumes "addTokens LineRange_new toks = Inr r" and "right r \<noteq> []"
  shows "\<exists>t\<in>set toks. type t = Comma"
proof -
  have "separator LineRange_new = None" by (simp add: LineRange_new_def)
  from addTokens_before_separator [OF this assms(1)]
  have "right r = filter not_comma (dropWhile not_comma toks)"
    by (simp add: LineRange_new_def)
  with assms(2) have "filter not_comma (dropWhile not_comma toks) \<noteq> []" by simp
  then have "dropWhile not_comma toks \<noteq> []" by (cases "dropWhile not_comma toks") simp_all
  then obtain t where "t \<in> set toks" "\<not> not_comma t"
    by (auto simp: dropWhile_eq_Nil_conv)
  then show ?thesis by (auto simp: not_comma_def)
qed

text \<open>
  C5. Whatever tokens are added to a fresh range without a throw: its right side is
  non-empty only if a separator token occurs among them, and then it holds exactly the
  tokens added after the first separator (the left side holds those added before it);
  the separator kept is one of the added Comma tokens; each side holds only offsets
  after its first token. Adding a token that is neither the separator nor an offset to a
  side that already holds a token throws; adding an offset never throws and appends it
  to the current side.
\<close>

theorem addToken_range_invariant:
  "(addTokens LineRange_new toks = Inr r \<longrightarrow>
      (right r \<noteq> [] \<longrightarrow> (\<exists>t\<in>set toks. type t = Comma))
      \<and> (right r \<noteq> [] \<longrightarrow> separator r \<noteq> None)
      \<and> (separator r = None \<longleftrightarrow> (\<forall>t\<in>set toks. not_comma t))
      \<and> (\<forall>s. separator r = Some s \<longrightarrow> s \<in> set toks \<and> type s = Comma)
      \<and> left r = takeWhile not_comma toks
      \<and> right r = filter not_comma (dropWhile not_comma toks)
      \<and> offsets_only (tl (left r)) \<and> offsets_only (tl (right r)))
   \<and> (type tok \<noteq> Comma \<longrightarrow> type tok \<noteq> Offset \<longrightarrow> current_side r0 \<noteq> [] \<longrightarrow>
        addToken r0 tok = Inl (Error ''not a Vim command''))
   \<and> (type off = Offset \<longrightarrow>
        addToken r0 off = Inr (if separator r0 = None then r0\<lparr>left := left r0 @ [off]\<rparr>
                               else r0\<lparr>right := right r0 @ [off]\<rparr>))"
proof -
  have built: "addTokens LineRange_new toks = Inr r \<longrightarrow>
      (right r \<noteq> [] \<longrightarrow> (\<exists>t\<in>set toks. type t = Comma))
      \<and> (right r \<noteq> [] \<longrightarrow> separator r \<noteq> None)
      \<and> (separator r = None \<longleftrightarrow> (\<forall>t\<in>set toks. not_comma t))
      \<and> (\<forall>s. separator r = Some s \<longrightarrow> s \<in> set toks \<and> type s = Comma)
      \<and> left r = takeWhile not_comma toks
      \<and> right r = filter not_comma (dropWhile not_comma toks)
      \<and> offsets_only (tl (left r)) \<and> offsets_only (tl (right r))"
  proof
    assume a: "addTokens LineRange_new toks = Inr r"
    have n: "separator LineRange_new = None" by (simp add: LineRange_new_def)
    from addTokens_before_separator [OF n a]
    have shape: "left r = takeWhile not_comma toks"
      "right r = filter not_comma (dropWhile not_comma toks)"
      "separator r = None \<longleftrightarrow> (\<forall>t\<in>set toks. not_comma t)"
      by (simp_all add: LineRange_new_def)
    have c: "right r \<noteq> [] \<longrightarrow> (\<exists>t\<in>set toks. type t = Comma)"
      using right_needs_comma [OF a] by blast
    have s: "\<forall>s. separator r = Some s \<longrightarrow> s \<in> set toks \<and> type s = Comma"
      using addTokens_separator_is_comma [OF a] n by auto
    from addTokens_inv [OF LineRange_new_inv a]
    have i: "right r \<noteq> [] \<longrightarrow> separator r \<noteq> None"
      "offsets_only (tl (left r))" "offsets_only (tl (right r))"
      by (simp_all add: LineRange_inv_def)
    from c i(1) shape(3) s shape(1) shape(2) i(2) i(3)
    show "(right r \<noteq> [] \<longrightarrow> (\<exists>t\<in>set toks. type t = Comma))
      \<and> (right r \<noteq> [] \<longrightarrow> separator r \<noteq> None)
      \<and> (separator r = None \<longleftrightarrow> (\<forall>t\<in>set toks. not_comma t))
      \<and> (\<forall>s. separator r = Some s \<longrightarrow> s \<in> set toks \<and> type s = Comma)
      \<and> left r = takeWhile not_comma toks
      \<and> right r = filter not_comma (dropWhile not_comma toks)
      \<and> offsets_only (tl (left r)) \<and> offsets_only (tl (right r))"
      by (intro conjI)
  qed
  have second: "type tok \<noteq> Comma \<longrightarrow> type tok \<noteq> Offset \<longrightarrow> current_side r0 \<noteq> [] \<longrightarrow>
        addToken r0 tok = Inl (Error ''not a Vim command'')"
    using addToken_second_primary [of tok r0] by blast
  have offs: "type off = Offset \<longrightarrow>
        addToken r0 off = Inr (if separator r0 = None then r0\<lparr>left := left r0 @ [off]\<rparr>
                               else r0\<lparr>right := right r0 @ [off]\<rparr>)"
    using addToken_offset [of off r0] by blast
  show ?thesis by (rule conjI [OF built conjI [OF second offs]])
qed

theorem addToken_range_invariant_witness:
  "addTokens LineRange_new
     [tk LineNumber ''1'', tk Offset ''+2'', tk Offset ''-1'', tk Comma '','', tk Dollar ''$'',
      tk Offset ''-1''] = Inr range_1_to_last
   \<and> right range_1_to_last \<noteq> []
   \<and> (\<exists>t\<in>set [tk LineNumber ''1'', tk Offset ''+2'', tk Offset ''-1'', tk Comma '','',
                 tk Dollar ''$'', tk Offset ''-1'']. type t = Comma)
   \<and> separator range_1_to_last \<noteq> None
   \<and> offsets_only (tl (left range_1_to_last)) \<and> offsets_only (tl (right range_1_to_last))
   \<and> type (tk Dot ''.'') \<noteq> Comma \<and> type (tk Dot ''.'') \<noteq> Offset
   \<and> current_side range_1_to_last \<noteq> []
   \<and> addToken range_1_to_last (tk Dot ''.'') = Inl (Error ''not a Vim command'')
   \<and> type (tk Offset ''+1'') = Offset
   \<and> addToken range_1_to_last (tk Offset ''+1'')
       = Inr (if separator range_1_to_last = None
              then range_1_to_last\<lparr>left := left range_1_to_last @ [tk Offset ''+1'']\<rparr>
              else range_1_to_last\<lparr>right := right range_1_to_last @ [tk Offset ''+1'']\<rparr>)"
proof -
  have built: "addTokens LineRange_new
     [tk LineNumber ''1'', tk Offset ''+2'', tk Offset ''-1'', tk Comma '','', tk Dollar ''$'',
      tk Offset ''-1''] = Inr range_1_to_last"
    by (simp add: addToken_def LineRange_new_def tk_def range_1_to_last_def)
  have h1: "right range_1_to_last \<noteq> []" by (simp add: range_1_to_last_def)
  have h2: "type (tk Dot ''.'') \<noteq> Comma" "type (tk Dot ''.'') \<noteq> Offset"
    by (simp_all add: tk_def)
  have h3: "current_side range_1_to_last \<noteq> []"
    by (simp add: current_side_def range_1_to_last_def)
  have h4: "type (tk Offset ''+1'') = Offset" by (simp add: tk_def)
  from built h1 h2 h3 h4
    addToken_range_invariant [of
      "[tk LineNumber ''1'', tk Offset ''+2'', tk Offset ''-1'', tk Comma '','', tk Dollar ''$'',
        tk Offset ''-1'']" range_1_to_last "tk Dot ''.''" range_1_to_last "tk Offset ''+1''"]
  show ?thesis by blast
qed

section \<open>Properties of address resolution\<close>

lemma lineRef_first_only: "lineRefToPosition doc (tok # rest) v = lineRefToPosition doc [tok] v"
  by (simp add: lineRefToPosition_def)

text \<open>
  C10. An address whose first token is \<open>$\<close>, \<open>%\<close>, \<open>.\<close>, a selection bound or a line
  number (with a value) resolves to a position in column 0. A mark that is set resolves
  to the stored position of the mark, column included; a position with a column other
  than 0 can only come from a mark. Every other kind of token throws
  \<open>Not Implemented\<close>.
\<close>

theorem address_column:
  "(type tok \<in> {Dollar, Percent, Dot, SelectionFirstLine, SelectionLastLine} \<longrightarrow>
      (\<exists>l. lineRefToPosition doc (tok # rest) vimState = Inr \<lparr>line = l, character = 0\<rparr>))
   \<and> (type tok = LineNumber \<longrightarrow> parseInt10 (content tok) = Some n \<longrightarrow>
      (\<exists>l. lineRefToPosition doc (tok # rest) vimState = Inr \<lparr>line = l, character = 0\<rparr>))
   \<and> (type tok = Mark \<longrightarrow> getMark vimState (content tok) = Some m \<longrightarrow>
      lineRefToPosition doc (tok # rest) vimState = Inr (position m))
   \<and> (lineRefToPosition doc (tok # rest) vimState = Inr pos \<longrightarrow> character pos \<noteq> 0 \<longrightarrow>
      type tok = Mark \<and> (\<exists>m. getMark vimState (content tok) = Some m \<and> pos = position m))
   \<and> (type tok \<notin> {Dollar, Percent, Dot, LineNumber, SelectionFirstLine, SelectionLastLine, Mark} \<longrightarrow>
      lineRefToPosition doc (tok # rest) vimState = Inl (Error ''Not Implemented''))"
  by (cases "type tok") (auto simp: lineRefToPosition_def split: option.splits)

lemma getMark_a: "getMark vs3 ''a'' = Some \<lparr>name = ''a'', position = \<lparr>line = 2, character = 1\<rparr>\<rparr>"
  by (simp add: getMark_def vs3_def)

theorem address_column_witness:
  "type (tk Dollar ''$'') \<in> {Dollar, Percent, Dot, SelectionFirstLine, SelectionLastLine}
   \<and> (\<exists>l. lineRefToPosition ed3 [tk Dollar ''$''] vs3 = Inr \<lparr>line = l, character = 0\<rparr>)
   \<and> type (tk LineNumber ''10'') = LineNumber
   \<and> parseInt10 (content (tk LineNumber ''10'')) = Some 10
   \<and> (\<exists>l. lineRefToPosition ed3 [tk LineNumber ''10''] vs3 = Inr \<lparr>line = l, character = 0\<rparr>)
   \<and> type (tk Mark ''a'') = Mark
   \<and> getMark vs3 (content (tk Mark ''a''))
        = Some \<lparr>name = ''a'', position = \<lparr>line = 2, character = 1\<rparr>\<rparr>
   \<and> lineRefToPosition ed3 [tk Mark ''a''] vs3
        = Inr (position \<lparr>name = ''a'', position = \<lparr>line = 2, character = 1\<rparr>\<rparr>)
   \<and> type (tk Offset ''+1'')
        \<notin> {Dollar, Percent, Dot, LineNumber, SelectionFirstLine, SelectionLastLine, Mark}
   \<and> lineRefToPosition ed3 [tk Offset ''+1''] vs3 = Inl (Error ''Not Implemented'')"
proof -
  let ?p = "\<lparr>line = 2, character = 1\<rparr> :: Position"
  let ?m = "\<lparr>name = ''a'', position = ?p\<rparr>"
  have h1: "type (tk Dollar ''$'') \<in> {Dollar, Percent, Dot, SelectionFirstLine, SelectionLastLine}"
    by (simp add: tk_def)
  have h2: "type (tk LineNumber ''10'') = LineNumber" by (simp add: tk_def)
  have h3: "parseInt10 (content (tk LineNumber ''10'')) = Some 10"
    by (simp add: tk_def parseInt10_10)
  have h4: "type (tk Mark ''a'') = Mark" by (simp add: tk_def)
  have h5: "getMark vs3 (content (tk Mark ''a'')) = Some ?m"
    by (simp add: tk_def getMark_a)
  have h6: "type (tk Offset ''+1'')
        \<notin> {Dollar, Percent, Dot, LineNumber, SelectionFirstLine, SelectionLastLine, Mark}"
    by (simp add: tk_def)
  have c1: "\<exists>l. lineRefToPosition ed3 [tk Dollar ''$''] vs3 = Inr \<lparr>line = l, character = 0\<rparr>"
    using address_column [of "tk Dollar ''$''" ed3 "[]" vs3 10 ?m ?p] h1 by blast
  have c2: "\<exists>l. lineRefToPosition ed3 [tk LineNumber ''10''] vs3 = Inr \<lparr>line = l, character = 0\<rparr>"
    using address_column [of "tk LineNumber ''10''" ed3 "[]" vs3 10 ?m ?p] h2 h3 by blast
  have c3: "lineRefToPosition ed3 [tk Mark ''a''] vs3 = Inr (position ?m)"
    using address_column [of "tk Mark ''a''" ed3 "[]" vs3 10 ?m ?p] h4 h5 by blast
  have c4: "lineRefToPosition ed3 [tk Offset ''+1''] vs3 = Inl (Error ''Not Implemented'')"
    using address_column [of "tk Offset ''+1''" ed3 "[]" vs3 10 ?m ?p] h6 by blast
  show ?thesis
    by (intro conjI) (rule h1 c1 h2 h3 c2 h4 h5 c3 h6 c4)+
qed

text \<open>
  C2. Executing a range that is not empty and has no command takes the right side if
  it is not empty and the left side otherwise; when the first token of that side
  resolves to a position, the cursor (and the start of the cursor) is moved to that
  position, and the editor with its buffer text is left as it was.
\<close>

theorem bare_range_jump:
  assumes "\<not> LineRange_isEmpty (range' cl)" and "command cl = None"
    and "(if right (range' cl) = [] then left (range' cl) else right (range' cl)) = tok # rest"
    and "lineRefToPosition doc [tok] vimState = Inr pos"
  shows "CommandLine_execute cl doc vimState
           = Inr (vimState\<lparr>cursorPosition := pos, cursorStartPosition := pos\<rparr>)
         \<and> editor (final (CommandLine_execute cl doc vimState)) = editor vimState"
proof -
  have "lineRefToPosition doc (tok # rest) vimState = Inr pos"
    using assms(4) lineRef_first_only [of doc tok rest vimState] by simp
  then have "LineRange_execute (range' cl) doc vimState
               = Inr (vimState\<lparr>cursorPosition := pos, cursorStartPosition := pos\<rparr>)"
    using assms(1,3) by (simp add: LineRange_execute_def setLocation_def)
  then show ?thesis
    using assms(2) by (simp add: CommandLine_execute_def final_def)
qed

theorem bare_range_jump_witness:
  "\<not> LineRange_isEmpty (range' bare_1_to_last) \<and> command bare_1_to_last = None
   \<and> (if right (range' bare_1_to_last) = [] then left (range' bare_1_to_last)
       else right (range' bare_1_to_last)) = tk Dollar ''$'' # [tk Offset ''-1'']
   \<and> lineRefToPosition ed3 [tk Dollar ''$''] vs3 = Inr \<lparr>line = 2, character = 0\<rparr>
   \<and> CommandLine_execute bare_1_to_last ed3 vs3
        = Inr (vs3\<lparr>cursorPosition := \<lparr>line = 2, character = 0\<rparr>,
                   cursorStartPosition := \<lparr>line = 2, character = 0\<rparr>\<rparr>)
   \<and> editor (final (CommandLine_execute bare_1_to_last ed3 vs3)) = editor vs3"
proof -
  have r: "lineRefToPosition ed3 [tk Dollar ''$''] vs3 = Inr \<lparr>line = 2, character = 0\<rparr>"
    by (simp add: tk_def lineRefToPosition_def ed3_def lineCount_def)
  have e: "\<not> LineRange_isEmpty (range' bare_1_to_last)"
    by (simp add: bare_1_to_last_def range_1_to_last_def LineRange_isEmpty_def)
  have c: "command bare_1_to_last = None" by (simp add: bare_1_to_last_def)
  have s: "(if right (range' bare_1_to_last) = [] then left (range' bare_1_to_last)
       else right (range' bare_1_to_last)) = tk Dollar ''$'' # [tk Offset ''-1'']"
    by (simp add: bare_1_to_last_def range_1_to_last_def)
  note j = bare_range_jump [OF e c s r]
  show ?thesis
    by (intro conjI) (rule e c s r conjunct1 [OF j] conjunct2 [OF j])+
qed


end
